theory Spec2Isabelle
  imports Main "HOL-Library.Sublist" "HOL-Library.List_Lexorder"
begin

section \<open>The ChromaDB demonstration client (client/main.py)\<close>

text \<open>
  A shallow embedding of the pure core of \<^verbatim>\<open>client/main.py\<close>: the reader of the
  \<^verbatim>\<open>.env\<close> file, the resolution of a setting, the port fallback of \<^verbatim>\<open>run\<close>, the
  seed corpus of \<^verbatim>\<open>ensure_documents\<close>, the keyword scorer and the evaluator that prints
  the report of one query.

  Conventions of the model:
  \<^item> a Python \<^verbatim>\<open>str\<close> is the list of its Unicode code points, each a natural number;
  \<^item> a \<^verbatim>\<open>set\<close> of strings that the code only iterates is the list of its elements in
    iteration order (a list without duplicates);
  \<^item> a \<^verbatim>\<open>dict\<close> is a map \<open>key \<rightharpoonup> value\<close>;
  \<^item> \<^verbatim>\<open>print\<close> appends the printed string to a list of printed lines;
  \<^item> a raised exception is a value of the type \<open>error\<close>;
  \<^item> the builtins \<^verbatim>\<open>str.lower\<close> and \<^verbatim>\<open>int\<close> belong to the Python runtime, whose Unicode
    tables are not part of the repository. The functions that call them take them as the
    parameters \<open>lower\<close> and \<open>to_int\<close>; \<open>lower_latin1\<close> and \<open>int_ascii\<close> are their
    restrictions to the code points below 256 and to ASCII digits, used to evaluate the
    program on concrete strings of that range.
\<close>

subsection \<open>Strings\<close>

type_synonym codepoint = nat
type_synonym str = "codepoint list"

text \<open>The code points of an ASCII literal.\<close>

definition cp :: "string \<Rightarrow> str" where
  "cp s = map of_char s"

text \<open>
  \<^verbatim>\<open>str.lower\<close> on Basic Latin and Latin-1 Supplement: A to Z and U+00C0 to U+00DE, the
  multiplication sign U+00D7 apart, move up by 32; every other code point below 256 is its
  own lowercase form.
\<close>

definition lower_cp :: "codepoint \<Rightarrow> codepoint" where
  "lower_cp c =
     (if (65 \<le> c \<and> c \<le> 90) \<or> (192 \<le> c \<and> c \<le> 222 \<and> c \<noteq> 215) then c + 32 else c)"

definition lower_latin1 :: "str \<Rightarrow> str" where
  "lower_latin1 s = map lower_cp s"

text \<open>\<^verbatim>\<open>kw in text\<close> on strings: \<open>kw\<close> occurs in \<open>text\<close> as a contiguous substring.\<close>

fun str_in :: "str \<Rightarrow> str \<Rightarrow> bool" where
  "str_in kw [] = (kw = [])"
| "str_in kw (c # cs) = (prefix kw (c # cs) \<or> str_in kw cs)"

text \<open>
  \<^verbatim>\<open>str.isspace\<close> of one code point, which is what \<^verbatim>\<open>str.strip()\<close> removes: U+0009 to
  U+000D, U+001C to U+0020, U+0085, U+00A0, U+1680, U+2000 to U+200A, U+2028, U+2029,
  U+202F, U+205F and U+3000.
\<close>

definition is_space :: "codepoint \<Rightarrow> bool" where
  "is_space c =
     ((9 \<le> c \<and> c \<le> 13) \<or> (28 \<le> c \<and> c \<le> 32) \<or> c = 133 \<or> c = 160 \<or> c = 5760
      \<or> (8192 \<le> c \<and> c \<le> 8202) \<or> c = 8232 \<or> c = 8233 \<or> c = 8239 \<or> c = 8287
      \<or> c = 12288)"

definition strip :: "str \<Rightarrow> str" where
  "strip s = rev (dropWhile is_space (rev (dropWhile is_space s)))"

text \<open>
  The line boundaries of \<^verbatim>\<open>str.splitlines()\<close>: LF, VT, FF, CR, FS, GS, RS, NEL, LS and
  PS; CR followed by LF is one boundary. The boundary is not kept, and a string that ends
  with a boundary has no empty last line.
\<close>

definition is_linebreak :: "codepoint \<Rightarrow> bool" where
  "is_linebreak c =
     ((10 \<le> c \<and> c \<le> 13) \<or> (28 \<le> c \<and> c \<le> 30) \<or> c = 133 \<or> c = 8232 \<or> c = 8233)"

fun splitlines_from :: "str \<Rightarrow> str \<Rightarrow> str list" where
  "splitlines_from cur [] = (if cur = [] then [] else [rev cur])"
| "splitlines_from cur (c # cs) =
     (if c = 13 then
        (case cs of
           [] \<Rightarrow> [rev cur]
         | d # ds \<Rightarrow>
             if d = 10 then rev cur # splitlines_from [] ds
             else rev cur # splitlines_from [] (d # ds))
      else if is_linebreak c then rev cur # splitlines_from [] cs
      else splitlines_from (c # cur) cs)"

definition splitlines :: "str \<Rightarrow> str list" where
  "splitlines s = splitlines_from [] s"

text \<open>\<^verbatim>\<open>s.split(sep, 1)\<close> for a one-character separator that occurs in \<open>s\<close>.\<close>

definition split_once :: "codepoint \<Rightarrow> str \<Rightarrow> str \<times> str" where
  "split_once sep s = (takeWhile (\<lambda>c. c \<noteq> sep) s, drop 1 (dropWhile (\<lambda>c. c \<noteq> sep) s))"

text \<open>\<^verbatim>\<open>sep.join(parts)\<close>.\<close>

fun join :: "str \<Rightarrow> str list \<Rightarrow> str" where
  "join sep [] = []"
| "join sep [x] = x"
| "join sep (x # y # ys) = x @ sep @ join sep (y # ys)"

text \<open>\<^verbatim>\<open>str(n)\<close> for an integer: decimal digits, with a minus sign when negative.\<close>

function str_of_nat :: "nat \<Rightarrow> str" where
  "str_of_nat n = (if n < 10 then [48 + n] else str_of_nat (n div 10) @ [48 + n mod 10])"
  by pat_completeness auto
termination
  by (relation "measure id") auto

declare str_of_nat.simps [simp del]

definition str_of_int :: "int \<Rightarrow> str" where
  "str_of_int i = (if i < 0 then 45 # str_of_nat (nat (- i)) else str_of_nat (nat i))"

text \<open>
  \<^verbatim>\<open>int(s)\<close> on ASCII input: surrounding whitespace is dropped, one sign is allowed, and
  the digits 0 to 9 follow, where single underscores may separate digits. \<open>None\<close> stands
  for \<^verbatim>\<open>ValueError\<close>.
\<close>

fun dec_digits :: "nat \<Rightarrow> bool \<Rightarrow> str \<Rightarrow> nat option" where
  "dec_digits acc prev_digit [] = (if prev_digit then Some acc else None)"
| "dec_digits acc prev_digit (c # cs) =
     (if 48 \<le> c \<and> c \<le> 57 then dec_digits (10 * acc + (c - 48)) True cs
      else if c = 95 \<and> prev_digit then dec_digits acc False cs
      else None)"

definition int_ascii :: "str \<Rightarrow> int option" where
  "int_ascii s =
     (case strip s of
        [] \<Rightarrow> None
      | c # cs \<Rightarrow>
          if c = 45 then map_option (\<lambda>n. - int n) (dec_digits 0 False cs)
          else if c = 43 then map_option int (dec_digits 0 False cs)
          else map_option int (dec_digits 0 False (c # cs)))"

subsection \<open>Configuration: \<^verbatim>\<open>load_env_file\<close>, \<^verbatim>\<open>resolve_setting\<close> and the port of \<^verbatim>\<open>run\<close>\<close>

definition DEFAULT_HOST :: str where
  "DEFAULT_HOST = cp ''localhost''"

definition DEFAULT_PORT :: int where
  "DEFAULT_PORT = 8000"

text \<open>
  The body of the loop of \<^verbatim>\<open>load_env_file\<close> (lines 34 to 40), as a function of the line
  and of the dictionary built so far. Both \<^verbatim>\<open>continue\<close> branches return the dictionary
  as it is.
\<close>

definition env_line :: "str \<Rightarrow> (str \<rightharpoonup> str) \<Rightarrow> (str \<rightharpoonup> str)" where
  "env_line line env_values =
     (let stripped = strip line in
      if stripped = [] \<or> prefix (cp ''#'') stripped then env_values
      else if \<not> str_in (cp ''='') stripped then env_values
      else (case split_once 61 stripped of
              (key, value) \<Rightarrow> env_values(strip key \<mapsto> strip value)))"

text \<open>
  The file system is a map from a path to the text that \<^verbatim>\<open>read_text(encoding="utf-8")\<close>
  returns for it; a path that does not exist maps to \<open>None\<close>. A path whose bytes are not
  UTF-8 text, or that is a directory, is outside the model. Reading translates CR LF and CR
  to LF, which leaves the lines of \<^verbatim>\<open>splitlines\<close> as they are.
\<close>

definition load_env_file :: "(str \<rightharpoonup> str) \<Rightarrow> str \<Rightarrow> (str \<rightharpoonup> str)" where
  "load_env_file fs env_path =
     (case fs env_path of
        None \<Rightarrow> Map.empty
      | Some content \<Rightarrow> fold env_line (splitlines content) Map.empty)"

text \<open>
  \<^verbatim>\<open>os.getenv(env_key) or env_file_values.get(env_key, fallback)\<close>: the process
  environment is the map \<open>environ\<close>; an unset variable and an empty value are both falsy.
\<close>

definition resolve_setting :: "(str \<rightharpoonup> str) \<Rightarrow> str \<Rightarrow> str \<Rightarrow> (str \<rightharpoonup> str) \<Rightarrow> str" where
  "resolve_setting environ env_key fallback env_file_values =
     (case environ env_key of
        Some v \<Rightarrow>
          if v \<noteq> [] then v
          else (case env_file_values env_key of Some w \<Rightarrow> w | None \<Rightarrow> fallback)
      | None \<Rightarrow> (case env_file_values env_key of Some w \<Rightarrow> w | None \<Rightarrow> fallback))"

text \<open>
  Lines 170 to 178 of \<^verbatim>\<open>run\<close>: what is printed, and the host and the port that line 180
  hands to \<^verbatim>\<open>build_client\<close>. \<open>to_int\<close> is the builtin \<^verbatim>\<open>int\<close>, \<open>None\<close> its \<^verbatim>\<open>ValueError\<close>.
\<close>

record client_config =
  cfg_printed :: "str list"
  cfg_host :: str
  cfg_port :: int

definition run_configure ::
  "(str \<Rightarrow> int option) \<Rightarrow> (str \<rightharpoonup> str) \<Rightarrow> (str \<rightharpoonup> str) \<Rightarrow> str \<Rightarrow> client_config" where
  "run_configure to_int environ fs env_path =
     (let env_file_values = load_env_file fs env_path;
          host = resolve_setting environ (cp ''CHROMA_HOST'') DEFAULT_HOST env_file_values;
          port_str = resolve_setting environ (cp ''CHROMA_PORT'') (str_of_int DEFAULT_PORT)
                       env_file_values
      in case to_int port_str of
           Some port \<Rightarrow> \<lparr>cfg_printed = [], cfg_host = host, cfg_port = port\<rparr>
         | None \<Rightarrow>
             \<lparr>cfg_printed = [cp ''Puerto inv'' @ [225] @ cp ''lido en CHROMA_PORT: '' @ port_str
                          @ cp ''. Usando '' @ str_of_int DEFAULT_PORT @ cp ''.''],
              cfg_host = host, cfg_port = DEFAULT_PORT\<rparr>)"

subsection \<open>The scorer: \<^verbatim>\<open>keyword_relevance\<close>\<close>

definition keyword_relevance :: "(str \<Rightarrow> str) \<Rightarrow> str \<Rightarrow> str list \<Rightarrow> int" where
  "keyword_relevance lower text keywords =
     (let text_lower = lower text;
          hits = length (filter (\<lambda>kw. str_in kw text_lower) keywords)
      in if hits = 0 then 0
         else if hits = 1 then 3
         else if hits = 2 then 4
         else 5)"

text \<open>
  The hit count in the words of the specification: the number of keywords of the set that
  occur as substrings of the lowercased text.
\<close>

definition hit_count :: "(str \<Rightarrow> str) \<Rightarrow> str \<Rightarrow> str set \<Rightarrow> nat" where
  "hit_count lower text K = card {kw \<in> K. sublist kw (lower text)}"

subsection \<open>The seed corpus: \<^verbatim>\<open>ensure_documents\<close>\<close>

text \<open>The list \<^verbatim>\<open>documents\<close> of \<^verbatim>\<open>ensure_documents\<close> (lines 63 to 114).\<close>

definition seed_documents :: "(str \<times> str \<times> (str \<rightharpoonup> str)) list" where
  "seed_documents =
     [(cp ''historia-01'',
       cp ''La ca'' @ [237] @ cp ''da del Imperio Romano marc'' @ [243]
         @ cp '' el inicio de la Edad Media y transform'' @ [243] @ cp '' la pol'' @ [237]
         @ cp ''tica europea.'',
       [cp ''tema'' \<mapsto> cp ''historia'']),
      (cp ''ia-01'',
       cp ''Los transformers revolucionaron el NLP al permitir el aprendizaje de dependencias largas en textos.'',
       [cp ''tema'' \<mapsto> cp ''ia'']),
      (cp ''ecologia-01'',
       cp ''La deforestaci'' @ [243]
         @ cp ''n afecta la biodiversidad y aumenta las emisiones de gases de efecto invernadero.'',
       [cp ''tema'' \<mapsto> cp ''ecologia'']),
      (cp ''deporte-01'',
       cp ''El entrenamiento de resistencia mejora la capacidad aer'' @ [243]
         @ cp ''bica y la salud cardiovascular de los atletas.'',
       [cp ''tema'' \<mapsto> cp ''deporte'']),
      (cp ''economia-01'',
       cp ''La inflaci'' @ [243] @ cp ''n y la pol'' @ [237] @ cp ''tica monetaria est'' @ [225]
         @ cp ''n estrechamente relacionadas con las expectativas del mercado.'',
       [cp ''tema'' \<mapsto> cp ''economia'']),
      (cp ''medicina-01'',
       cp ''Las vacunas de ARNm activan respuestas inmunol'' @ [243] @ cp ''gicas espec'' @ [237]
         @ cp ''ficas con tiempos de desarrollo reducidos.'',
       [cp ''tema'' \<mapsto> cp ''medicina'']),
      (cp ''tecnologia-01'',
       cp ''La computaci'' @ [243]
         @ cp ''n en la nube facilita la escalabilidad de aplicaciones y la gesti'' @ [243]
         @ cp ''n de datos distribuidos.'',
       [cp ''tema'' \<mapsto> cp ''tecnologia'']),
      (cp ''musica-01'',
       cp ''El jazz de los a'' @ [241] @ cp ''os 50 explor'' @ [243] @ cp '' la improvisaci''
         @ [243] @ cp ''n modal e influy'' @ [243] @ cp '' en generaciones posteriores de m''
         @ [250] @ cp ''sicos.'',
       [cp ''tema'' \<mapsto> cp ''musica'']),
      (cp ''literatura-01'',
       cp ''El realismo m'' @ [225] @ cp ''gico en Am'' @ [233] @ cp ''rica Latina mezcl'' @ [243]
         @ cp '' elementos fant'' @ [225] @ cp ''sticos con narrativas cotidianas.'',
       [cp ''tema'' \<mapsto> cp ''literatura'']),
      (cp ''ciencia-01'',
       cp ''El m'' @ [233] @ cp ''todo cient'' @ [237] @ cp ''fico combina observaci'' @ [243]
         @ cp ''n, hip'' @ [243] @ cp ''tesis, experimentaci'' @ [243] @ cp ''n y an'' @ [225]
         @ cp ''lisis para validar teor'' @ [237] @ cp ''as.'',
       [cp ''tema'' \<mapsto> cp ''ciencia''])]"

text \<open>
  The store is an external collaborator: \<^verbatim>\<open>ensure_documents\<close> is modelled by the one call
  it makes, \<^verbatim>\<open>collection.upsert(ids=..., documents=..., metadatas=...)\<close>, with the three
  list comprehensions of lines 117 to 119 as its arguments.
\<close>

datatype store_call = Upsert "str list" "str list" "(str \<rightharpoonup> str) list"

definition ensure_documents :: store_call where
  "ensure_documents =
     Upsert (map (\<lambda>(doc_id, _, _). doc_id) seed_documents)
            (map (\<lambda>(_, text, _). text) seed_documents)
            (map (\<lambda>(_, _, metadata). metadata) seed_documents)"


subsection \<open>The evaluator: \<^verbatim>\<open>evaluate_results\<close>\<close>

text \<open>
  The values a metadata entry of the store holds: \<^verbatim>\<open>None\<close>, a string, an integer or a
  boolean (floating-point values are left out). A metadata item of a response is a
  \<^verbatim>\<open>dict\<close> of such values or, when \<^verbatim>\<open>isinstance(metadata, dict)\<close> is false, one such
  value.
\<close>

datatype pyscalar = PNone | PStr str | PInt int | PBool bool

datatype metadata = Dict "str \<rightharpoonup> pyscalar" | NotDict pyscalar

datatype error = IndexError | TypeError

text \<open>What an f-string writes for a value, \<^verbatim>\<open>str(v)\<close>, and the truth value of \<^verbatim>\<open>if v\<close>.\<close>

fun str_of_scalar :: "pyscalar \<Rightarrow> str" where
  "str_of_scalar PNone = cp ''None''"
| "str_of_scalar (PStr s) = s"
| "str_of_scalar (PInt i) = str_of_int i"
| "str_of_scalar (PBool b) = (if b then cp ''True'' else cp ''False'')"

fun truthy :: "pyscalar \<Rightarrow> bool" where
  "truthy PNone = False"
| "truthy (PStr s) = (s \<noteq> [])"
| "truthy (PInt i) = (i \<noteq> 0)"
| "truthy (PBool b) = b"

fun is_str :: "pyscalar \<Rightarrow> bool" where
  "is_str (PStr s) = True"
| "is_str v = False"

text \<open>
  The response of \<^verbatim>\<open>collection.query\<close>: a dictionary with the keys \<^verbatim>\<open>ids\<close>, \<^verbatim>\<open>documents\<close>
  and \<^verbatim>\<open>metadatas\<close>, each a list with one row per query text. A field is \<open>None\<close> when the
  key is absent.
\<close>

record query_results =
  r_ids :: "str list list option"
  r_documents :: "str list list option"
  r_metadatas :: "metadata list list option"

text \<open>\<^verbatim>\<open>results.get(key, [[]])[0]\<close>: indexing an empty list raises \<^verbatim>\<open>IndexError\<close>.\<close>

fun first_row :: "'a list list option \<Rightarrow> error + 'a list" where
  "first_row None = Inr []"
| "first_row (Some []) = Inl IndexError"
| "first_row (Some (row # rows)) = Inr row"

text \<open>
  The state of one evaluation: the \<^verbatim>\<open>results\<close> object the caller passed, and the lines
  printed so far.
\<close>

record eval_state =
  st_results :: query_results
  st_printed :: "str list"

definition print :: "str \<Rightarrow> eval_state \<Rightarrow> eval_state" where
  "print line s = s\<lparr>st_printed := st_printed s @ [line]\<rparr>"

text \<open>
  The loop of lines 151 to 157 over \<^verbatim>\<open>enumerate(zip(ids, documents, metadatas), start=1)\<close>.
\<close>

fun print_entries ::
  "(str \<Rightarrow> str) \<Rightarrow> str list \<Rightarrow> nat \<Rightarrow> (str \<times> str \<times> metadata) list \<Rightarrow> eval_state \<Rightarrow> eval_state"
where
  "print_entries lower keywords idx [] s = s"
| "print_entries lower keywords idx ((doc_id, doc_text, metadata) # rest) s =
     (let score = keyword_relevance lower doc_text keywords;
          topic = (case metadata of
                     Dict d \<Rightarrow> (case d (cp ''tema'') of
                                 Some v \<Rightarrow> v
                               | None \<Rightarrow> PStr (cp ''desconocido''))
                   | NotDict v \<Rightarrow> v);
          s1 = print (cp ''#'' @ str_of_nat idx @ cp '' -> ID: '' @ doc_id) s;
          s2 = print (cp ''       Tema: '' @ str_of_scalar topic) s1;
          s3 = print (cp ''       Texto: '' @ doc_text) s2;
          s4 = print (cp ''       Relevancia aparente (0-5): '' @ str_of_int score) s3
      in print_entries lower keywords (idx + 1) rest s4)"

text \<open>
  Lines 159 and 160. The set comprehension keeps \<^verbatim>\<open>md.get("tema")\<close>, which is \<^verbatim>\<open>None\<close>
  for a dictionary without the key, of every metadata item that is a dictionary. The
  falsy values are dropped; \<^verbatim>\<open>sorted\<close> and \<^verbatim>\<open>', '.join\<close> then raise \<^verbatim>\<open>TypeError\<close> unless
  every value left is a string. (A Python set identifies \<^verbatim>\<open>1\<close> and \<^verbatim>\<open>True\<close>; both are
  truthy values that are not strings, so the outcome is \<^verbatim>\<open>TypeError\<close> either way.)
  Strings are sorted by code point, which is the order of \<open>List_Lexorder\<close>.
\<close>

fun coverage_topics :: "metadata list \<Rightarrow> pyscalar list" where
  "coverage_topics [] = []"
| "coverage_topics (Dict d # mds) =
     (case d (cp ''tema'') of Some v \<Rightarrow> v | None \<Rightarrow> PNone) # coverage_topics mds"
| "coverage_topics (NotDict v # mds) = coverage_topics mds"

definition coverage_line :: "metadata list \<Rightarrow> error + str" where
  "coverage_line metadatas =
     (let topics = filter truthy (remdups (coverage_topics metadatas)) in
      if list_all is_str topics then
        (let joined = join (cp '', '') (sort (map str_of_scalar topics)) in
         Inr (cp ''Cobertura tem'' @ [225] @ cp ''tica: ''
                @ (if joined = [] then cp ''sin datos'' else joined)))
      else Inl TypeError)"

definition note_exact :: str where
  "note_exact =
     cp ''Notas: Los resultados contienen coincidencias claras con las palabras clave.''"

definition note_semantic :: str where
  "note_semantic =
     cp ''Notas: Las coincidencias dependen de la similitud sem'' @ [225]
       @ cp ''ntica, no hay palabras clave exactas.''"

text \<open>
  \<^verbatim>\<open>evaluate_results(query, results, keywords)\<close>: the exception raised, if any, and the
  state the call leaves.
\<close>

definition evaluate_results ::
  "(str \<Rightarrow> str) \<Rightarrow> str \<Rightarrow> query_results \<Rightarrow> str list \<Rightarrow> error option \<times> eval_state" where
  "evaluate_results lower query results keywords =
     (let s0 = \<lparr>st_results = results, st_printed = []\<rparr> in
      case first_row (r_ids (st_results s0)) of
        Inl e \<Rightarrow> (Some e, s0)
      | Inr ids \<Rightarrow>
     (case first_row (r_documents (st_results s0)) of
        Inl e \<Rightarrow> (Some e, s0)
      | Inr documents \<Rightarrow>
     (case first_row (r_metadatas (st_results s0)) of
        Inl e \<Rightarrow> (Some e, s0)
      | Inr metadatas \<Rightarrow>
     (let s1 = print ([10] @ cp ''=============================='') s0;
          s2 = print (cp ''Consulta: '' @ query) s1;
          s3 = print (cp ''Resultados (top 3):'') s2;
          s4 = print_entries lower keywords 1 (zip ids (zip documents metadatas)) s3
      in case coverage_line metadatas of
           Inl e \<Rightarrow> (Some e, s4)
         | Inr line \<Rightarrow>
             (let s5 = print line s4;
                  related_hits =
                    filter (\<lambda>doc. list_ex (\<lambda>kw. str_in kw (lower doc)) keywords) documents
              in if related_hits \<noteq> [] then (None, print note_exact s5)
                 else (None, print note_semantic s5))))))"

section \<open>Properties\<close>

subsection \<open>Helper facts about strings and the scorer\<close>

lemma str_in_iff_sublist: "str_in kw t \<longleftrightarrow> sublist kw t"
  by (induction t) (auto simp: sublist_Cons_right)

lemma hits_eq_hit_count:
  "distinct keywords \<Longrightarrow>
     length (filter (\<lambda>kw. str_in kw (lower text)) keywords) = hit_count lower text (set keywords)"
  unfolding hit_count_def str_in_iff_sublist
  by (simp add: distinct_length_filter Int_def conj_commute)

lemma keyword_relevance_cases:
  "keyword_relevance lower text keywords =
     (let h = length (filter (\<lambda>kw. str_in kw (lower text)) keywords)
      in if h = 0 then 0 else if h = 1 then 3 else if h = 2 then 4 else 5)"
  by (simp add: keyword_relevance_def Let_def)

lemma lower_latin1_idem: "lower_latin1 (lower_latin1 text) = lower_latin1 text"
proof -
  have "lower_cp (lower_cp c) = lower_cp c" for c
    by (simp add: lower_cp_def)
  then show ?thesis
    by (simp add: lower_latin1_def)
qed

subsection \<open>The scorer\<close>

text \<open>
  Claim C1. For every text and every keyword set (a list without duplicates), the score
  is a function of the hit count \<open>h\<close>, the number of keywords of the set that occur as
  substrings of the lowercased text: 0 for \<open>h = 0\<close>, 3 for \<open>h = 1\<close>, 4 for \<open>h = 2\<close> and 5
  for \<open>h \<ge> 3\<close>. Hence a larger hit count never gives a smaller score, whatever the texts
  and keyword sets compared, and the score is never 1 or 2.
\<close>

theorem keyword_relevance_by_hit_count:
  assumes "distinct keywords" and "distinct keywords'"
  shows "(hit_count lower text (set keywords) = 0 \<longrightarrow> keyword_relevance lower text keywords = 0)
       \<and> (hit_count lower text (set keywords) = 1 \<longrightarrow> keyword_relevance lower text keywords = 3)
       \<and> (hit_count lower text (set keywords) = 2 \<longrightarrow> keyword_relevance lower text keywords = 4)
       \<and> (3 \<le> hit_count lower text (set keywords) \<longrightarrow>
            keyword_relevance lower text keywords = 5)
       \<and> (hit_count lower text (set keywords) \<le> hit_count lower' text' (set keywords') \<longrightarrow>
            keyword_relevance lower text keywords \<le> keyword_relevance lower' text' keywords')
       \<and> keyword_relevance lower text keywords \<noteq> 1
       \<and> keyword_relevance lower text keywords \<noteq> 2"
  unfolding keyword_relevance_cases hits_eq_hit_count [OF assms(1)]
    hits_eq_hit_count [OF assms(2)]
  by (simp add: Let_def)

theorem keyword_relevance_by_hit_count_witness:
  "distinct [cp ''ia'', cp ''system''] \<and> distinct [cp ''ia'', cp ''system'', cp ''the'']
   \<and> hit_count lower_latin1 (cp ''The IA system'') (set [cp ''ia'', cp ''system'']) = 2
   \<and> keyword_relevance lower_latin1 (cp ''The IA system'') [cp ''ia'', cp ''system''] = 4
   \<and> keyword_relevance lower_latin1 (cp ''The IA system'') [cp ''ia'', cp ''system'']
       \<le> keyword_relevance lower_latin1 (cp ''The IA system'')
            [cp ''ia'', cp ''system'', cp ''the'']"
proof -
  have d: "distinct [cp ''ia'', cp ''system'']"
    by (simp add: cp_def)
  have d': "distinct [cp ''ia'', cp ''system'', cp ''the'']"
    by (simp add: cp_def)
  have h: "hit_count lower_latin1 (cp ''The IA system'') (set [cp ''ia'', cp ''system'']) = 2"
    unfolding hits_eq_hit_count [OF d, symmetric]
    by (simp add: cp_def lower_latin1_def lower_cp_def)
  have h': "hit_count lower_latin1 (cp ''The IA system'')
              (set [cp ''ia'', cp ''system'', cp ''the'']) = 3"
    unfolding hits_eq_hit_count [OF d', symmetric]
    by (simp add: cp_def lower_latin1_def lower_cp_def)
  from keyword_relevance_by_hit_count [OF d d', of lower_latin1 "cp ''The IA system''"
      lower_latin1 "cp ''The IA system''"]
  show ?thesis using d d' h h' by simp
qed

text \<open>
  Claim C2, as stated: changing the case of the text or of the keyword does not change
  the score. It fails: the code lowercases the text and compares the keywords as they
  are given, so the keyword \<^verbatim>\<open>IA\<close> never occurs in a lowercased text.
\<close>

theorem keyword_case_counterexample:
  "keyword_relevance lower_latin1 (cp ''The IA system'') [cp ''ia'']
     \<noteq> keyword_relevance lower_latin1 (cp ''the ia system'') [cp ''IA'']"
  by (simp add: keyword_relevance_def cp_def lower_latin1_def lower_cp_def)

text \<open>
  Claim C2, amended. Matching ignores the case of the text only: two texts with the same
  lowercase form get the same score for every keyword list, and a text scores as its
  lowercase form does; the keywords are compared as given. So
  \<^verbatim>\<open>score("The IA system", {"ia"})\<close> and \<^verbatim>\<open>score("the ia system", {"ia"})\<close> are both 3,
  and \<^verbatim>\<open>score("the ia system", {"IA"})\<close> is 0.
\<close>

theorem keyword_relevance_text_case:
  "(lower text = lower text' \<longrightarrow>
      keyword_relevance lower text keywords = keyword_relevance lower text' keywords)
   \<and> keyword_relevance lower_latin1 (lower_latin1 text) keywords
       = keyword_relevance lower_latin1 text keywords
   \<and> keyword_relevance lower_latin1 (cp ''The IA system'') [cp ''ia''] = 3
   \<and> keyword_relevance lower_latin1 (cp ''the ia system'') [cp ''ia''] = 3
   \<and> keyword_relevance lower_latin1 (cp ''the ia system'') [cp ''IA''] = 0"
proof -
  have a: "lower text = lower text' \<longrightarrow>
      keyword_relevance lower text keywords = keyword_relevance lower text' keywords"
    by (simp add: keyword_relevance_def)
  have b: "keyword_relevance lower_latin1 (lower_latin1 text) keywords
       = keyword_relevance lower_latin1 text keywords"
    by (simp add: keyword_relevance_def lower_latin1_idem)
  have c: "keyword_relevance lower_latin1 (cp ''The IA system'') [cp ''ia''] = 3"
    by (simp add: keyword_relevance_def cp_def lower_latin1_def lower_cp_def)
  have d: "keyword_relevance lower_latin1 (cp ''the ia system'') [cp ''ia''] = 3"
    by (simp add: keyword_relevance_def cp_def lower_latin1_def lower_cp_def)
  have e: "keyword_relevance lower_latin1 (cp ''the ia system'') [cp ''IA''] = 0"
    by (simp add: keyword_relevance_def cp_def lower_latin1_def lower_cp_def)
  from a b c d e show ?thesis by blast
qed

theorem keyword_relevance_text_case_witness:
  "lower_latin1 (cp ''The IA system'') = lower_latin1 (cp ''the ia system'')
   \<and> keyword_relevance lower_latin1 (cp ''The IA system'') [cp ''ia'', cp ''nlp'']
       = keyword_relevance lower_latin1 (cp ''the ia system'') [cp ''ia'', cp ''nlp'']"
proof -
  have l: "lower_latin1 (cp ''The IA system'') = lower_latin1 (cp ''the ia system'')"
    by (simp add: cp_def lower_latin1_def lower_cp_def)
  from keyword_relevance_text_case [of lower_latin1 "cp ''The IA system''"
      "cp ''the ia system''" "[cp ''ia'', cp ''nlp'']"] l
  show ?thesis by blast
qed

text \<open>
  Claim C10. The empty string occurs in every text, so a keyword set that contains it has
  at least one hit: for every text the score is at least 3, and never 0.
\<close>

theorem empty_keyword_always_hits:
  assumes "[] \<in> set keywords"
  shows "str_in [] (lower text) \<and> 3 \<le> keyword_relevance lower text keywords
       \<and> keyword_relevance lower text keywords \<noteq> 0"
proof -
  have e: "str_in [] (lower text)"
    by (simp add: str_in_iff_sublist)
  with assms have "filter (\<lambda>kw. str_in kw (lower text)) keywords \<noteq> []"
    by (auto simp: filter_empty_conv)
  then have "length (filter (\<lambda>kw. str_in kw (lower text)) keywords) \<noteq> 0"
    by simp
  then show ?thesis using e
    by (simp add: keyword_relevance_cases Let_def)
qed

theorem empty_keyword_always_hits_witness:
  "[] \<in> set [cp ''nlp'', []]
   \<and> keyword_relevance lower_latin1 (cp ''Edad Media'') [cp ''nlp'', []] = 3"
  using empty_keyword_always_hits [of "[cp ''nlp'', []]" lower_latin1 "cp ''Edad Media''"]
  by (simp add: keyword_relevance_def cp_def lower_latin1_def lower_cp_def)

subsection \<open>Configuration\<close>

lemma str_in_single: "str_in [c] s \<longleftrightarrow> c \<in> set s"
  by (induction s) auto

lemma prefix_single: "prefix [c] s \<longleftrightarrow> (\<exists>r. s = c # r)"
  by (cases s) auto

lemma split_once_first: "sep \<notin> set k \<Longrightarrow> split_once sep (k @ sep # v) = (k, v)"
  by (induction k) (auto simp: split_once_def)

lemma cp_hash: "cp ''#'' = [35]"
  by (simp add: cp_def)

lemma cp_equals: "cp ''='' = [61]"
  by (simp add: cp_def)

lemma env_line_cases:
  "env_line line m =
     (if strip line = [] \<or> (\<exists>r. strip line = 35 # r) \<or> 61 \<notin> set (strip line) then m
      else m(strip (fst (split_once 61 (strip line)))
               \<mapsto> strip (snd (split_once 61 (strip line)))))"
  by (auto simp: env_line_def Let_def cp_hash cp_equals str_in_single prefix_single
      split: prod.splits)

lemma splitlines_example:
  "splitlines (cp ''# comment'' @ [10, 10] @ cp ''FOO=bar'' @ [10] @ cp ''BADLINE'' @ [10]
                 @ cp '' KEY = value with spaces '')
     = [cp ''# comment'', [], cp ''FOO=bar'', cp ''BADLINE'', cp '' KEY = value with spaces '']"
  by (simp add: splitlines_def cp_def is_linebreak_def)

lemma load_env_file_example:
  "load_env_file
     [cp ''.env'' \<mapsto> cp ''# comment'' @ [10, 10] @ cp ''FOO=bar'' @ [10] @ cp ''BADLINE'' @ [10]
                      @ cp '' KEY = value with spaces '']
     (cp ''.env'')
   = [cp ''FOO'' \<mapsto> cp ''bar'', cp ''KEY'' \<mapsto> cp ''value with spaces'']"
  unfolding load_env_file_def fun_upd_same option.case splitlines_example
  by (simp add: env_line_def cp_def strip_def is_space_def split_once_def)

text \<open>
  Claim C4. A variable that is set and not empty in the process environment wins; else a
  key of the file mapping wins; else the default is returned, so the default is what is
  returned when the key is absent at every level. \<open>resolve_setting\<close> is total and its
  result is a string: it has no raising branch. With \<^verbatim>\<open>PORT=9000\<close> in the environment,
  \<^verbatim>\<open>PORT=7000\<close> in the file and the default \<^verbatim>\<open>8000\<close> the result is \<^verbatim>\<open>9000\<close>; without the
  environment variable it is \<^verbatim>\<open>7000\<close>; without both it is \<^verbatim>\<open>8000\<close>.
\<close>

theorem resolve_setting_precedence:
  "(\<forall>v. environ key = Some v \<and> v \<noteq> [] \<longrightarrow>
        resolve_setting environ key fallback file_values = v)
   \<and> (\<forall>w. (environ key = None \<or> environ key = Some []) \<and> file_values key = Some w \<longrightarrow>
          resolve_setting environ key fallback file_values = w)
   \<and> ((environ key = None \<or> environ key = Some []) \<and> file_values key = None \<longrightarrow>
          resolve_setting environ key fallback file_values = fallback)
   \<and> resolve_setting [cp ''PORT'' \<mapsto> cp ''9000''] (cp ''PORT'') (cp ''8000'')
        [cp ''PORT'' \<mapsto> cp ''7000''] = cp ''9000''
   \<and> resolve_setting Map.empty (cp ''PORT'') (cp ''8000'') [cp ''PORT'' \<mapsto> cp ''7000'']
        = cp ''7000''
   \<and> resolve_setting Map.empty (cp ''PORT'') (cp ''8000'') Map.empty = cp ''8000''"
  by (auto simp: resolve_setting_def cp_def)

theorem resolve_setting_precedence_witness:
  "resolve_setting [cp ''HOST'' \<mapsto> cp ''db''] (cp ''HOST'') (cp ''localhost'')
     [cp ''HOST'' \<mapsto> cp ''chroma''] = cp ''db''
   \<and> resolve_setting [cp ''HOST'' \<mapsto> []] (cp ''HOST'') (cp ''localhost'')
       [cp ''HOST'' \<mapsto> cp ''chroma''] = cp ''chroma''
   \<and> resolve_setting [cp ''HOST'' \<mapsto> []] (cp ''HOST'') (cp ''localhost'') Map.empty
       = cp ''localhost''"
proof -
  have db: "cp ''db'' \<noteq> []"
    by (simp add: cp_def)
  from resolve_setting_precedence [of "[cp ''HOST'' \<mapsto> cp ''db'']" "cp ''HOST''"
      "cp ''localhost''" "[cp ''HOST'' \<mapsto> cp ''chroma'']"] db
  have a: "resolve_setting [cp ''HOST'' \<mapsto> cp ''db''] (cp ''HOST'') (cp ''localhost'')
             [cp ''HOST'' \<mapsto> cp ''chroma''] = cp ''db''"
    by simp
  from resolve_setting_precedence [of "[cp ''HOST'' \<mapsto> []]" "cp ''HOST''"
      "cp ''localhost''" "[cp ''HOST'' \<mapsto> cp ''chroma'']"]
  have b: "resolve_setting [cp ''HOST'' \<mapsto> []] (cp ''HOST'') (cp ''localhost'')
             [cp ''HOST'' \<mapsto> cp ''chroma''] = cp ''chroma''"
    by simp
  from resolve_setting_precedence [of "[cp ''HOST'' \<mapsto> []]" "cp ''HOST''"
      "cp ''localhost''" "Map.empty"]
  have c: "resolve_setting [cp ''HOST'' \<mapsto> []] (cp ''HOST'') (cp ''localhost'') Map.empty
             = cp ''localhost''"
    by simp
  from a b c show ?thesis by blast
qed

text \<open>
  Claim C5. A missing file gives the empty mapping. The content of a file is read line
  by line: a line whose trimmed form is empty or begins with \<^verbatim>\<open>#\<close> changes nothing, a
  line without \<^verbatim>\<open>=\<close> changes nothing, and any other line is split at its first \<^verbatim>\<open>=\<close>
  and stores the trimmed value under the trimmed key. The five lines \<^verbatim>\<open># comment\<close>, the
  empty line, \<^verbatim>\<open>FOO=bar\<close>, \<^verbatim>\<open>BADLINE\<close> and \<^verbatim>\<open> KEY = value with spaces \<close> give exactly
  \<^verbatim>\<open>{FOO: "bar", KEY: "value with spaces"}\<close>.
\<close>

theorem load_env_file_lines:
  "(fs p = None \<longrightarrow> load_env_file fs p = Map.empty)
   \<and> (\<forall>content. fs p = Some content \<longrightarrow>
          load_env_file fs p = fold env_line (splitlines content) Map.empty)
   \<and> (strip line = [] \<longrightarrow> env_line line m = m)
   \<and> (\<forall>r. strip line = 35 # r \<longrightarrow> env_line line m = m)
   \<and> (61 \<notin> set (strip line) \<longrightarrow> env_line line m = m)
   \<and> (\<forall>k v. strip line = k @ 61 # v \<and> 61 \<notin> set k \<and> (\<forall>r. strip line \<noteq> 35 # r) \<longrightarrow>
          env_line line m = m(strip k \<mapsto> strip v))
   \<and> load_env_file
        [cp ''.env'' \<mapsto> cp ''# comment'' @ [10, 10] @ cp ''FOO=bar'' @ [10] @ cp ''BADLINE''
                         @ [10] @ cp '' KEY = value with spaces '']
        (cp ''.env'')
      = [cp ''FOO'' \<mapsto> cp ''bar'', cp ''KEY'' \<mapsto> cp ''value with spaces'']"
proof -
  have a: "fs p = None \<longrightarrow> load_env_file fs p = Map.empty"
    by (simp add: load_env_file_def)
  have b: "\<forall>content. fs p = Some content \<longrightarrow>
             load_env_file fs p = fold env_line (splitlines content) Map.empty"
    by (simp add: load_env_file_def)
  have c: "strip line = [] \<longrightarrow> env_line line m = m"
    by (simp add: env_line_cases)
  have d: "\<forall>r. strip line = 35 # r \<longrightarrow> env_line line m = m"
    by (simp add: env_line_cases)
  have e: "61 \<notin> set (strip line) \<longrightarrow> env_line line m = m"
    by (simp add: env_line_cases)
  have f: "\<forall>k v. strip line = k @ 61 # v \<and> 61 \<notin> set k \<and> (\<forall>r. strip line \<noteq> 35 # r) \<longrightarrow>
             env_line line m = m(strip k \<mapsto> strip v)"
    by (auto simp: env_line_cases split_once_first)
  from a b c d e f load_env_file_example show ?thesis
    by blast
qed

theorem load_env_file_lines_witness:
  "load_env_file Map.empty (cp ''.env'') = Map.empty
   \<and> load_env_file [cp ''.env'' \<mapsto> cp ''A=1'' @ [10] @ cp ''A=2''] (cp ''.env'')
       = fold env_line [cp ''A=1'', cp ''A=2''] Map.empty
   \<and> env_line (cp ''   '') [cp ''FOO'' \<mapsto> cp ''bar''] = [cp ''FOO'' \<mapsto> cp ''bar'']
   \<and> env_line (cp '' # FOO=baz'') [cp ''FOO'' \<mapsto> cp ''bar''] = [cp ''FOO'' \<mapsto> cp ''bar'']
   \<and> env_line (cp ''BADLINE'') [cp ''FOO'' \<mapsto> cp ''bar''] = [cp ''FOO'' \<mapsto> cp ''bar'']
   \<and> env_line (cp '' URL = http:x?a=b '') Map.empty = [cp ''URL'' \<mapsto> cp ''http:x?a=b'']"
proof -
  have s0: "splitlines (cp ''A=1'' @ [10] @ cp ''A=2'') = [cp ''A=1'', cp ''A=2'']"
    by (simp add: splitlines_def cp_def is_linebreak_def)
  have s1: "strip (cp ''   '') = []"
    by (simp add: strip_def cp_def is_space_def)
  have s2: "strip (cp '' # FOO=baz'') = 35 # cp '' FOO=baz''"
    by (simp add: strip_def cp_def is_space_def)
  have s3: "61 \<notin> set (strip (cp ''BADLINE''))"
    by (simp add: strip_def cp_def is_space_def)
  have s4: "strip (cp '' URL = http:x?a=b '') = cp ''URL '' @ 61 # cp '' http:x?a=b''
            \<and> 61 \<notin> set (cp ''URL '') \<and> (\<forall>r. strip (cp '' URL = http:x?a=b '') \<noteq> 35 # r)"
    by (simp add: strip_def cp_def is_space_def)
  have s5: "strip (cp ''URL '') = cp ''URL'' \<and> strip (cp '' http:x?a=b'') = cp ''http:x?a=b''"
    by (simp add: strip_def cp_def is_space_def)
  from load_env_file_lines [of Map.empty "cp ''.env''"]
  have a: "load_env_file Map.empty (cp ''.env'') = Map.empty"
    by simp
  from load_env_file_lines
    [of "[cp ''.env'' \<mapsto> cp ''A=1'' @ [10] @ cp ''A=2'']" "cp ''.env''"] s0
  have b: "load_env_file [cp ''.env'' \<mapsto> cp ''A=1'' @ [10] @ cp ''A=2''] (cp ''.env'')
             = fold env_line [cp ''A=1'', cp ''A=2''] Map.empty"
    by simp
  from load_env_file_lines [of _ _ "cp ''   ''" "[cp ''FOO'' \<mapsto> cp ''bar'']"] s1
  have c: "env_line (cp ''   '') [cp ''FOO'' \<mapsto> cp ''bar''] = [cp ''FOO'' \<mapsto> cp ''bar'']"
    by blast
  from load_env_file_lines [of _ _ "cp '' # FOO=baz''" "[cp ''FOO'' \<mapsto> cp ''bar'']"] s2
  have d: "env_line (cp '' # FOO=baz'') [cp ''FOO'' \<mapsto> cp ''bar'']
             = [cp ''FOO'' \<mapsto> cp ''bar'']"
    by blast
  from load_env_file_lines [of _ _ "cp ''BADLINE''" "[cp ''FOO'' \<mapsto> cp ''bar'']"] s3
  have e: "env_line (cp ''BADLINE'') [cp ''FOO'' \<mapsto> cp ''bar''] = [cp ''FOO'' \<mapsto> cp ''bar'']"
    by blast
  from load_env_file_lines [of _ _ "cp '' URL = http:x?a=b ''" Map.empty] s4
  have "env_line (cp '' URL = http:x?a=b '') Map.empty
          = [strip (cp ''URL '') \<mapsto> strip (cp '' http:x?a=b'')]"
    by blast
  with s5 have f: "env_line (cp '' URL = http:x?a=b '') Map.empty
                     = [cp ''URL'' \<mapsto> cp ''http:x?a=b'']"
    by simp
  from a b c d e f show ?thesis by blast
qed

text \<open>
  Claim C6. When the resolved port string does not parse as an integer, \<^verbatim>\<open>run\<close> prints
  a diagnostic that names the value and the port used instead, and goes on with
  the default port 8000; when it parses, the parsed value is the port and nothing is
  printed. The configuration step has no raising branch.
\<close>

theorem run_port_fallback:
  "(to_int (resolve_setting environ (cp ''CHROMA_PORT'') (cp ''8000'')
              (load_env_file fs env_path)) = None \<longrightarrow>
      cfg_port (run_configure to_int environ fs env_path) = 8000
      \<and> cfg_printed (run_configure to_int environ fs env_path)
          = [cp ''Puerto inv'' @ [225] @ cp ''lido en CHROMA_PORT: ''
             @ resolve_setting environ (cp ''CHROMA_PORT'') (cp ''8000'')
                 (load_env_file fs env_path)
             @ cp ''. Usando 8000.''])
   \<and> (\<forall>n. to_int (resolve_setting environ (cp ''CHROMA_PORT'') (cp ''8000'')
                  (load_env_file fs env_path)) = Some n \<longrightarrow>
          cfg_port (run_configure to_int environ fs env_path) = n
          \<and> cfg_printed (run_configure to_int environ fs env_path) = [])"
proof -
  have d: "str_of_int DEFAULT_PORT = cp ''8000''"
    by (simp add: DEFAULT_PORT_def str_of_int_def str_of_nat.simps cp_def)
  have e: "cp ''. Usando '' @ cp ''8000'' @ cp ''.'' = cp ''. Usando 8000.''"
    by (simp add: cp_def)
  show ?thesis
    unfolding run_configure_def Let_def d e
    by (auto simp: DEFAULT_PORT_def)
qed

theorem run_port_fallback_witness:
  "cfg_port (run_configure int_ascii [cp ''CHROMA_PORT'' \<mapsto> cp ''80a''] Map.empty (cp ''.env''))
     = 8000
   \<and> cfg_printed
       (run_configure int_ascii [cp ''CHROMA_PORT'' \<mapsto> cp ''80a''] Map.empty (cp ''.env''))
     = [cp ''Puerto inv'' @ [225] @ cp ''lido en CHROMA_PORT: 80a. Usando 8000.'']
   \<and> cfg_port (run_configure int_ascii [cp ''CHROMA_PORT'' \<mapsto> cp ''9000''] Map.empty
        (cp ''.env'')) = 9000
   \<and> cfg_printed (run_configure int_ascii [cp ''CHROMA_PORT'' \<mapsto> cp ''9000''] Map.empty
        (cp ''.env'')) = []"
proof -
  have r1: "resolve_setting [cp ''CHROMA_PORT'' \<mapsto> cp ''80a''] (cp ''CHROMA_PORT'') (cp ''8000'')
              (load_env_file Map.empty (cp ''.env'')) = cp ''80a''"
    by (simp add: resolve_setting_def load_env_file_def cp_def)
  have r2: "resolve_setting [cp ''CHROMA_PORT'' \<mapsto> cp ''9000''] (cp ''CHROMA_PORT'')
              (cp ''8000'') (load_env_file Map.empty (cp ''.env'')) = cp ''9000''"
    by (simp add: resolve_setting_def load_env_file_def cp_def)
  have p1: "int_ascii (cp ''80a'') = None"
    by (simp add: int_ascii_def cp_def strip_def is_space_def)
  have p2: "int_ascii (cp ''9000'') = Some 9000"
    by (simp add: int_ascii_def cp_def strip_def is_space_def)
  have m: "cp ''lido en CHROMA_PORT: '' @ cp ''80a'' @ cp ''. Usando 8000.''
             = cp ''lido en CHROMA_PORT: 80a. Usando 8000.''"
    by (simp add: cp_def)
  from run_port_fallback [of int_ascii "[cp ''CHROMA_PORT'' \<mapsto> cp ''80a'']" Map.empty
      "cp ''.env''"]
  have a: "cfg_port (run_configure int_ascii [cp ''CHROMA_PORT'' \<mapsto> cp ''80a''] Map.empty
             (cp ''.env'')) = 8000
           \<and> cfg_printed (run_configure int_ascii [cp ''CHROMA_PORT'' \<mapsto> cp ''80a''] Map.empty
               (cp ''.env''))
             = [cp ''Puerto inv'' @ [225] @ cp ''lido en CHROMA_PORT: 80a. Usando 8000.'']"
    unfolding r1 using p1 m by simp
  from run_port_fallback [of int_ascii "[cp ''CHROMA_PORT'' \<mapsto> cp ''9000'']" Map.empty
      "cp ''.env''"]
  have b: "cfg_port (run_configure int_ascii [cp ''CHROMA_PORT'' \<mapsto> cp ''9000''] Map.empty
             (cp ''.env'')) = 9000
           \<and> cfg_printed (run_configure int_ascii [cp ''CHROMA_PORT'' \<mapsto> cp ''9000''] Map.empty
               (cp ''.env'')) = []"
    unfolding r2 using p2 by simp
  from a b show ?thesis by blast
qed

subsection \<open>The seed corpus\<close>

lemma unzip3:
  "zip (map (\<lambda>(a, _, _). a) xs) (zip (map (\<lambda>(_, b, _). b) xs) (map (\<lambda>(_, _, c). c) xs)) = xs"
  by (induction xs) auto

lemma parallel_nth:
  "length xs = n \<Longrightarrow> length ys = n \<Longrightarrow> length zs = n \<Longrightarrow> i < n \<Longrightarrow>
     (xs ! i, ys ! i, zs ! i) = zip xs (zip ys zs) ! i"
  by simp

text \<open>
  Claim C7. The seed corpus has exactly 10 records; their ids are pairwise distinct;
  every record has a topic under the key \<^verbatim>\<open>tema\<close> and the 10 topics are pairwise
  distinct. The three lists handed to \<^verbatim>\<open>upsert\<close> have 10 elements each and are correlated
  by position: for every index \<open>i\<close>, the id, the text and the metadata at \<open>i\<close> are those of
  the record at \<open>i\<close>.
\<close>

theorem seed_corpus_parallel:
  "length seed_documents = 10
   \<and> distinct (map (\<lambda>(doc_id, text, metadata). doc_id) seed_documents)
   \<and> list_all (\<lambda>(doc_id, text, metadata). metadata (cp ''tema'') \<noteq> None) seed_documents
   \<and> distinct (map (\<lambda>(doc_id, text, metadata). metadata (cp ''tema'')) seed_documents)
   \<and> (case ensure_documents of
        Upsert ids documents metadatas \<Rightarrow>
          length ids = 10 \<and> length documents = 10 \<and> length metadatas = 10 \<and> distinct ids
          \<and> zip ids (zip documents metadatas) = seed_documents
          \<and> (\<forall>i<10. (ids ! i, documents ! i, metadatas ! i) = seed_documents ! i))"
proof -
  have len: "length seed_documents = 10"
    by (simp add: seed_documents_def)
  have ids: "distinct (map (\<lambda>(doc_id, text, metadata). doc_id) seed_documents)"
    by (simp add: seed_documents_def cp_def)
  have some: "list_all (\<lambda>(doc_id, text, metadata). metadata (cp ''tema'') \<noteq> None)
                seed_documents"
    by (simp add: seed_documents_def cp_def)
  have topics: "distinct (map (\<lambda>(doc_id, text, metadata). metadata (cp ''tema''))
                  seed_documents)"
    by (simp add: seed_documents_def cp_def)
  have nth: "\<forall>i<10. (map (\<lambda>(doc_id, _, _). doc_id) seed_documents ! i,
                     map (\<lambda>(_, text, _). text) seed_documents ! i,
                     map (\<lambda>(_, _, metadata). metadata) seed_documents ! i)
                    = seed_documents ! i"
    using parallel_nth [of "map (\<lambda>(doc_id, _, _). doc_id) seed_documents" 10
        "map (\<lambda>(_, text, _). text) seed_documents"
        "map (\<lambda>(_, _, metadata). metadata) seed_documents"]
    unfolding unzip3 by (simp add: len)
  show ?thesis
    unfolding ensure_documents_def store_call.case
    using len ids some topics nth by (simp add: unzip3)
qed

theorem seed_corpus_parallel_witness:
  "(2::nat) < 10
   \<and> (case ensure_documents of
        Upsert ids documents metadatas \<Rightarrow>
          ids ! 2 = cp ''ecologia-01''
          \<and> (metadatas ! 2) (cp ''tema'') = Some (cp ''ecologia'')
          \<and> documents ! 2 = fst (snd (seed_documents ! 2)))"
proof -
  have r: "seed_documents ! 2
             = (cp ''ecologia-01'', fst (snd (seed_documents ! 2)),
                [cp ''tema'' \<mapsto> cp ''ecologia''])"
    by (simp add: seed_documents_def)
  from seed_corpus_parallel
  have "\<forall>i<10. (map (\<lambda>(doc_id, _, _). doc_id) seed_documents ! i,
                 map (\<lambda>(_, text, _). text) seed_documents ! i,
                 map (\<lambda>(_, _, metadata). metadata) seed_documents ! i) = seed_documents ! i"
    unfolding ensure_documents_def store_call.case by blast
  then have "(map (\<lambda>(doc_id, _, _). doc_id) seed_documents ! 2,
              map (\<lambda>(_, text, _). text) seed_documents ! 2,
              map (\<lambda>(_, _, metadata). metadata) seed_documents ! 2) = seed_documents ! 2"
    by simp
  then have "(map (\<lambda>(doc_id, _, _). doc_id) seed_documents ! 2,
              map (\<lambda>(_, text, _). text) seed_documents ! 2,
              map (\<lambda>(_, _, metadata). metadata) seed_documents ! 2)
             = (cp ''ecologia-01'', fst (snd (seed_documents ! 2)),
                [cp ''tema'' \<mapsto> cp ''ecologia''])"
    using r by (rule trans)
  then have "map (\<lambda>(doc_id, _, _). doc_id) seed_documents ! 2 = cp ''ecologia-01''
             \<and> map (\<lambda>(_, text, _). text) seed_documents ! 2 = fst (snd (seed_documents ! 2))
             \<and> map (\<lambda>(_, _, metadata). metadata) seed_documents ! 2
                 = [cp ''tema'' \<mapsto> cp ''ecologia'']"
    by (simp only: prod.inject)
  then show ?thesis
    unfolding ensure_documents_def store_call.case by simp
qed

subsection \<open>The evaluator\<close>

lemma st_results_print [simp]: "st_results (print line s) = st_results s"
  by (simp add: print_def)

lemma st_printed_print [simp]: "st_printed (print line s) = st_printed s @ [line]"
  by (simp add: print_def)

lemma print_entries_Cons:
  "print_entries lw kws idx ((doc_id, doc_text, metadata) # rest) s =
     print_entries lw kws (Suc idx) rest
       (print (cp ''       Relevancia aparente (0-5): ''
                 @ str_of_int (keyword_relevance lw doc_text kws))
         (print (cp ''       Texto: '' @ doc_text)
           (print (cp ''       Tema: '' @ str_of_scalar
                     (case metadata of
                        Dict d \<Rightarrow> (case d (cp ''tema'') of
                                    Some v \<Rightarrow> v
                                  | None \<Rightarrow> PStr (cp ''desconocido''))
                      | NotDict v \<Rightarrow> v))
             (print (cp ''#'' @ str_of_nat idx @ cp '' -> ID: '' @ doc_id) s))))"
  by (simp add: Let_def)

lemma st_results_print_entries [simp]:
  "st_results (print_entries lw kws idx entries s) = st_results s"
proof (induction entries arbitrary: idx s)
  case Nil
  show ?case by simp
next
  case (Cons e entries)
  obtain doc_id doc_text metadata where e: "e = (doc_id, doc_text, metadata)"
    by (cases e) auto
  show ?case
    unfolding e print_entries_Cons Cons.IH by simp
qed

lemma print_entries_extends:
  "\<exists>ys. st_printed (print_entries lw kws idx entries s) = st_printed s @ ys
        \<and> length ys = 4 * length entries"
proof (induction entries arbitrary: idx s)
  case Nil
  show ?case by simp
next
  case (Cons e entries)
  obtain doc_id doc_text metadata where e: "e = (doc_id, doc_text, metadata)"
    by (cases e) auto
  show ?case
    unfolding e print_entries_Cons
  proof -
    fix s' :: eval_state
    let ?s4 = "print (cp ''       Relevancia aparente (0-5): ''
                 @ str_of_int (keyword_relevance lw doc_text kws))
         (print (cp ''       Texto: '' @ doc_text)
           (print (cp ''       Tema: '' @ str_of_scalar
                     (case metadata of
                        Dict d \<Rightarrow> (case d (cp ''tema'') of
                                    Some v \<Rightarrow> v
                                  | None \<Rightarrow> PStr (cp ''desconocido''))
                      | NotDict v \<Rightarrow> v))
             (print (cp ''#'' @ str_of_nat idx @ cp '' -> ID: '' @ doc_id) s)))"
    from Cons.IH [of "Suc idx" ?s4] obtain ys where
      ys: "st_printed (print_entries lw kws (Suc idx) entries ?s4) = st_printed ?s4 @ ys"
      and len: "length ys = 4 * length entries"
      by blast
    obtain zs where zs: "st_printed ?s4 = st_printed s @ zs" and lz: "length zs = 4"
      by simp
    have "st_printed (print_entries lw kws (Suc idx) entries ?s4) = st_printed s @ (zs @ ys)"
      unfolding ys zs by simp
    moreover have "length (zs @ ys) = 4 * length ((doc_id, doc_text, metadata) # entries)"
      using len lz by simp
    ultimately show "\<exists>ys. st_printed (print_entries lw kws (Suc idx) entries ?s4) = st_printed s @ ys
        \<and> length ys = 4 * length ((doc_id, doc_text, metadata) # entries)"
      by blast
  qed
qed

lemma print_entries_topic_line:
  "i < length entries \<Longrightarrow>
     st_printed (print_entries lw kws idx entries s) ! (length (st_printed s) + 4 * i + 1)
       = cp ''       Tema: '' @ str_of_scalar
           (case snd (snd (entries ! i)) of
              Dict d \<Rightarrow> (case d (cp ''tema'') of
                          Some v \<Rightarrow> v
                        | None \<Rightarrow> PStr (cp ''desconocido''))
            | NotDict v \<Rightarrow> v)"
proof (induction entries arbitrary: idx s i)
  case Nil
  then show ?case by simp
next
  case (Cons e entries)
  obtain doc_id doc_text metadata where e: "e = (doc_id, doc_text, metadata)"
    by (cases e) auto
  let ?topic = "case metadata of
                  Dict d \<Rightarrow> (case d (cp ''tema'') of
                              Some v \<Rightarrow> v
                            | None \<Rightarrow> PStr (cp ''desconocido''))
                | NotDict v \<Rightarrow> v"
  let ?s4 = "print (cp ''       Relevancia aparente (0-5): ''
                      @ str_of_int (keyword_relevance lw doc_text kws))
              (print (cp ''       Texto: '' @ doc_text)
                (print (cp ''       Tema: '' @ str_of_scalar ?topic)
                  (print (cp ''#'' @ str_of_nat idx @ cp '' -> ID: '' @ doc_id) s)))"
  have step: "print_entries lw kws idx (e # entries) s = print_entries lw kws (Suc idx) entries ?s4"
    unfolding e print_entries_Cons ..
  have len4: "length (st_printed ?s4) = length (st_printed s) + 4"
    by simp
  show ?case
  proof (cases i)
    case 0
    obtain ys where ys: "st_printed (print_entries lw kws (Suc idx) entries ?s4)
                           = st_printed ?s4 @ ys"
      using print_entries_extends by blast
    have "st_printed (print_entries lw kws (Suc idx) entries ?s4) ! (length (st_printed s) + 1)
            = st_printed ?s4 ! (length (st_printed s) + 1)"
      unfolding ys by (simp add: nth_append)
    also have "\<dots> = cp ''       Tema: '' @ str_of_scalar ?topic"
      by (simp add: nth_append)
    finally show ?thesis unfolding step using 0 e by simp
  next
    case (Suc j)
    with Cons.prems have j: "j < length entries" by simp
    have idx_eq: "length (st_printed ?s4) + 4 * j + 1 = length (st_printed s) + 4 * i + 1"
      unfolding len4 Suc by simp
    have nth_eq: "(e # entries) ! i = entries ! j"
      using Suc by simp
    show ?thesis
      unfolding step nth_eq
      using Cons.IH [OF j, of "Suc idx" ?s4] unfolding idx_eq .
  qed
qed


lemma print_entries_length:
  "length (st_printed (print_entries lw kws idx entries s))
     = length (st_printed s) + 4 * length entries"
  using print_entries_extends [of lw kws idx entries s] by auto

lemma evaluate_results_rows:
  assumes "first_row (r_ids results) = Inr ids"
    and "first_row (r_documents results) = Inr documents"
    and "first_row (r_metadatas results) = Inr metadatas"
  shows "evaluate_results lw query results kws =
     (let s4 = print_entries lw kws 1 (zip ids (zip documents metadatas))
                 \<lparr>st_results = results,
                  st_printed = [[10] @ cp ''=============================='',
                                cp ''Consulta: '' @ query, cp ''Resultados (top 3):'']\<rparr>
      in case coverage_line metadatas of
           Inl e \<Rightarrow> (Some e, s4)
         | Inr line \<Rightarrow>
             (None,
              print (if \<exists>doc\<in>set documents. \<exists>kw\<in>set kws. str_in kw (lw doc) then note_exact
                     else note_semantic)
                (print line s4)))"
  using assms
  by (simp add: evaluate_results_def Let_def print_def filter_empty_conv list_ex_iff
      split: sum.splits)

lemma evaluate_results_keeps_results:
  "st_results (snd (evaluate_results lw query results kws)) = results"
  by (simp add: evaluate_results_def Let_def split: sum.splits)

lemma evaluate_results_topic_line:
  assumes "first_row (r_ids results) = Inr ids"
    and "first_row (r_documents results) = Inr documents"
    and "first_row (r_metadatas results) = Inr metadatas"
    and "i < length ids" and "i < length documents" and "i < length metadatas"
  shows "3 + 4 * i + 1 < length (st_printed (snd (evaluate_results lw query results kws)))
       \<and> st_printed (snd (evaluate_results lw query results kws)) ! (3 + 4 * i + 1)
           = cp ''       Tema: '' @ str_of_scalar
               (case metadatas ! i of
                  Dict d \<Rightarrow> (case d (cp ''tema'') of
                              Some v \<Rightarrow> v
                            | None \<Rightarrow> PStr (cp ''desconocido''))
                | NotDict v \<Rightarrow> v)"
proof -
  let ?s3 = "\<lparr>st_results = results,
             st_printed = [[10] @ cp ''=============================='',
                           cp ''Consulta: '' @ query, cp ''Resultados (top 3):'']\<rparr>"
  let ?entries = "zip ids (zip documents metadatas)"
  let ?s4 = "print_entries lw kws 1 ?entries ?s3"
  have i: "i < length ?entries"
    using assms(4-6) by simp
  have len: "length (st_printed ?s4) = 3 + 4 * length ?entries"
    by (simp add: print_entries_length)
  from i have "4 * i + 4 \<le> 4 * length ?entries"
    by arith
  then have lt: "3 + 4 * i + 1 < length (st_printed ?s4)"
    unfolding len by arith
  have raw: "st_printed ?s4 ! (length (st_printed ?s3) + 4 * i + 1)
          = cp ''       Tema: '' @ str_of_scalar
               (case snd (snd (?entries ! i)) of
                  Dict d \<Rightarrow> (case d (cp ''tema'') of
                              Some v \<Rightarrow> v
                            | None \<Rightarrow> PStr (cp ''desconocido''))
                | NotDict v \<Rightarrow> v)"
    using i by (rule print_entries_topic_line)
  have ix: "length (st_printed ?s3) + 4 * i + 1 = 3 + 4 * i + 1"
    by simp
  have md: "snd (snd (?entries ! i)) = metadatas ! i"
    using assms(4-6) by simp
  have line: "st_printed ?s4 ! (3 + 4 * i + 1)
          = cp ''       Tema: '' @ str_of_scalar
               (case metadatas ! i of
                  Dict d \<Rightarrow> (case d (cp ''tema'') of
                              Some v \<Rightarrow> v
                            | None \<Rightarrow> PStr (cp ''desconocido''))
                | NotDict v \<Rightarrow> v)"
    using raw unfolding ix md .
  show ?thesis
  proof (cases "coverage_line metadatas")
    case (Inl e)
    then have "snd (evaluate_results lw query results kws) = ?s4"
      unfolding evaluate_results_rows [OF assms(1-3)] by (simp add: Let_def)
    with lt line show ?thesis by simp
  next
    case (Inr l)
    then have "st_printed (snd (evaluate_results lw query results kws))
                 = st_printed ?s4 @ [l, if \<exists>doc\<in>set documents. \<exists>kw\<in>set kws. str_in kw (lw doc)
                                        then note_exact else note_semantic]"
      unfolding evaluate_results_rows [OF assms(1-3)] by (simp add: Let_def)
    with lt line show ?thesis by (simp add: nth_append)
  qed
qed

text \<open>
  Claim C8. For every ranked entry \<open>i\<close> (counted from 0) of a response whose three fields
  can be unwrapped, the second line of the block of that entry, which is line
  \<open>3 + 4 * i + 1\<close> of the output, reports the topic: the raw metadata value when the
  metadata item is not a dictionary; the value under the key \<^verbatim>\<open>tema\<close> when it is a
  dictionary with that key; the placeholder \<^verbatim>\<open>desconocido\<close> (unknown) when the key is
  absent.
\<close>

theorem evaluate_results_topic:
  assumes "first_row (r_ids results) = Inr ids"
    and "first_row (r_documents results) = Inr documents"
    and "first_row (r_metadatas results) = Inr metadatas"
    and "i < length ids" and "i < length documents" and "i < length metadatas"
  shows "3 + 4 * i + 1 < length (st_printed (snd (evaluate_results lw query results kws)))
       \<and> (\<forall>v. metadatas ! i = NotDict v \<longrightarrow>
             st_printed (snd (evaluate_results lw query results kws)) ! (3 + 4 * i + 1)
               = cp ''       Tema: '' @ str_of_scalar v)
       \<and> (\<forall>d v. metadatas ! i = Dict d \<and> d (cp ''tema'') = Some v \<longrightarrow>
             st_printed (snd (evaluate_results lw query results kws)) ! (3 + 4 * i + 1)
               = cp ''       Tema: '' @ str_of_scalar v)
       \<and> (\<forall>d. metadatas ! i = Dict d \<and> d (cp ''tema'') = None \<longrightarrow>
             st_printed (snd (evaluate_results lw query results kws)) ! (3 + 4 * i + 1)
               = cp ''       Tema: desconocido'')"
proof -
  have u: "cp ''       Tema: '' @ cp ''desconocido'' = cp ''       Tema: desconocido''"
    by (simp add: cp_def)
  from evaluate_results_topic_line [OF assms, of lw query kws] u
  show ?thesis by auto
qed

text \<open>
  Claim C9. A response with no ranked entries, each field being absent or having an empty
  first row, is evaluated without an exception: the report is the header, the coverage
  line with the placeholder \<^verbatim>\<open>sin datos\<close> (no data) and the note that the matches are
  semantic only. And for every input, also one that makes the evaluation raise, the
  \<^verbatim>\<open>results\<close> object is the same after the call.
\<close>

theorem evaluate_results_empty:
  "(first_row (r_ids results) = Inr [] \<and> first_row (r_documents results) = Inr []
      \<and> first_row (r_metadatas results) = Inr [] \<longrightarrow>
      evaluate_results lw query results kws
        = (None,
           \<lparr>st_results = results,
            st_printed = [[10] @ cp ''=============================='',
                          cp ''Consulta: '' @ query,
                          cp ''Resultados (top 3):'',
                          cp ''Cobertura tem'' @ [225] @ cp ''tica: sin datos'',
                          note_semantic]\<rparr>))
   \<and> st_results (snd (evaluate_results lw query results kws)) = results"
proof -
  have c: "coverage_line [] = Inr (cp ''Cobertura tem'' @ [225] @ cp ''tica: sin datos'')"
    by (simp add: coverage_line_def cp_def)
  have "evaluate_results lw query results kws
        = (None,
           \<lparr>st_results = results,
            st_printed = [[10] @ cp ''=============================='',
                          cp ''Consulta: '' @ query,
                          cp ''Resultados (top 3):'',
                          cp ''Cobertura tem'' @ [225] @ cp ''tica: sin datos'',
                          note_semantic]\<rparr>)"
    if "first_row (r_ids results) = Inr []" "first_row (r_documents results) = Inr []"
      "first_row (r_metadatas results) = Inr []"
    unfolding evaluate_results_rows [OF that] c
    by (simp add: Let_def print_def)
  then show ?thesis
    using evaluate_results_keeps_results by blast
qed




theorem evaluate_results_topic_witness:
  "st_printed (snd (evaluate_results lower_latin1 (cp ''nlp'')
      \<lparr>r_ids = Some [[cp ''a'', cp ''b'', cp ''c'']],
       r_documents = Some [[cp ''x'', cp ''y'', cp ''z'']],
       r_metadatas = Some [[NotDict PNone, Dict [cp ''tema'' \<mapsto> PStr (cp ''ia'')],
                            Dict Map.empty]]\<rparr> [cp ''nlp''])) ! 4
     = cp ''       Tema: None''
   \<and> st_printed (snd (evaluate_results lower_latin1 (cp ''nlp'')
      \<lparr>r_ids = Some [[cp ''a'', cp ''b'', cp ''c'']],
       r_documents = Some [[cp ''x'', cp ''y'', cp ''z'']],
       r_metadatas = Some [[NotDict PNone, Dict [cp ''tema'' \<mapsto> PStr (cp ''ia'')],
                            Dict Map.empty]]\<rparr> [cp ''nlp''])) ! 8
     = cp ''       Tema: ia''
   \<and> st_printed (snd (evaluate_results lower_latin1 (cp ''nlp'')
      \<lparr>r_ids = Some [[cp ''a'', cp ''b'', cp ''c'']],
       r_documents = Some [[cp ''x'', cp ''y'', cp ''z'']],
       r_metadatas = Some [[NotDict PNone, Dict [cp ''tema'' \<mapsto> PStr (cp ''ia'')],
                            Dict Map.empty]]\<rparr> [cp ''nlp''])) ! 12
     = cp ''       Tema: desconocido''"
proof -
  let ?ids = "[cp ''a'', cp ''b'', cp ''c'']"
  let ?docs = "[cp ''x'', cp ''y'', cp ''z'']"
  let ?mds = "[NotDict PNone, Dict [cp ''tema'' \<mapsto> PStr (cp ''ia'')], Dict Map.empty]"
  let ?r = "\<lparr>r_ids = Some [?ids], r_documents = Some [?docs], r_metadatas = Some [?mds]\<rparr>"
  have r1: "first_row (r_ids ?r) = Inr ?ids" by simp
  have r2: "first_row (r_documents ?r) = Inr ?docs" by simp
  have r3: "first_row (r_metadatas ?r) = Inr ?mds" by simp
  have n: "cp ''       Tema: '' @ str_of_scalar PNone = cp ''       Tema: None''"
    "cp ''       Tema: '' @ str_of_scalar (PStr (cp ''ia'')) = cp ''       Tema: ia''"
    by (simp_all add: cp_def)
  have "(0::nat) < length ?ids" "(0::nat) < length ?docs" "(0::nat) < length ?mds"
    by simp_all
  from evaluate_results_topic [OF r1 r2 r3 this, of lower_latin1 "cp ''nlp''" "[cp ''nlp'']"]
  have a: "st_printed (snd (evaluate_results lower_latin1 (cp ''nlp'') ?r [cp ''nlp''])) ! 4
             = cp ''       Tema: None''"
    using n by simp
  have "(1::nat) < length ?ids" "(1::nat) < length ?docs" "(1::nat) < length ?mds"
    by simp_all
  from evaluate_results_topic [OF r1 r2 r3 this, of lower_latin1 "cp ''nlp''" "[cp ''nlp'']"]
  have b: "st_printed (snd (evaluate_results lower_latin1 (cp ''nlp'') ?r [cp ''nlp''])) ! 8
             = cp ''       Tema: ia''"
    using n by (simp add: cp_def)
  have "(2::nat) < length ?ids" "(2::nat) < length ?docs" "(2::nat) < length ?mds"
    by simp_all
  from evaluate_results_topic [OF r1 r2 r3 this, of lower_latin1 "cp ''nlp''" "[cp ''nlp'']"]
  have c: "st_printed (snd (evaluate_results lower_latin1 (cp ''nlp'') ?r [cp ''nlp''])) ! 12
             = cp ''       Tema: desconocido''"
    by (simp add: cp_def)
  from a b c show ?thesis by blast
qed

theorem evaluate_results_empty_witness:
  "evaluate_results lower_latin1 (cp ''nlp'')
     \<lparr>r_ids = Some [[]], r_documents = Some [[]], r_metadatas = Some [[]]\<rparr> [cp ''nlp'']
   = (None,
      \<lparr>st_results = \<lparr>r_ids = Some [[]], r_documents = Some [[]], r_metadatas = Some [[]]\<rparr>,
       st_printed = [[10] @ cp ''=============================='',
                     cp ''Consulta: nlp'',
                     cp ''Resultados (top 3):'',
                     cp ''Cobertura tem'' @ [225] @ cp ''tica: sin datos'',
                     note_semantic]\<rparr>)
   \<and> fst (evaluate_results lower_latin1 (cp ''nlp'')
          \<lparr>r_ids = None, r_documents = None, r_metadatas = None\<rparr> [cp ''nlp'']) = None"
proof -
  have q: "cp ''Consulta: '' @ cp ''nlp'' = cp ''Consulta: nlp''"
    by (simp add: cp_def)
  from evaluate_results_empty [of "\<lparr>r_ids = Some [[]], r_documents = Some [[]],
      r_metadatas = Some [[]]\<rparr>" lower_latin1 "cp ''nlp''" "[cp ''nlp'']"]
  have a: "evaluate_results lower_latin1 (cp ''nlp'')
     \<lparr>r_ids = Some [[]], r_documents = Some [[]], r_metadatas = Some [[]]\<rparr> [cp ''nlp'']
   = (None,
      \<lparr>st_results = \<lparr>r_ids = Some [[]], r_documents = Some [[]], r_metadatas = Some [[]]\<rparr>,
       st_printed = [[10] @ cp ''=============================='',
                     cp ''Consulta: nlp'',
                     cp ''Resultados (top 3):'',
                     cp ''Cobertura tem'' @ [225] @ cp ''tica: sin datos'',
                     note_semantic]\<rparr>)"
    unfolding q by simp
  from evaluate_results_empty [of "\<lparr>r_ids = None, r_documents = None,
      r_metadatas = None\<rparr>" lower_latin1 "cp ''nlp''" "[cp ''nlp'']"]
  have b: "fst (evaluate_results lower_latin1 (cp ''nlp'')
          \<lparr>r_ids = None, r_documents = None, r_metadatas = None\<rparr> [cp ''nlp'']) = None"
    by simp
  from a b show ?thesis by blast
qed







end
